theory Spec2Isabelle
  imports Complex_Main "HOL-Library.AList" "HOL-Library.Sublist"
begin

section \<open>ANTA: device abstraction, command collection and test verdicts\<close>

text \<open>
  A shallow embedding of \<^verbatim>\<open>anta/device.py\<close>, \<^verbatim>\<open>anta/tools/utils.py\<close> and
  \<^verbatim>\<open>anta/tests/routing/bgp.py\<close>. Coroutines are modelled as state-passing functions
  over the state of the eAPI endpoint; logging calls have no effect on any modelled
  state and are left out. Exceptions are values: the classes below are the ones the
  \<^verbatim>\<open>except\<close> clauses of \<^verbatim>\<open>device.py\<close> tell apart, \<open>OtherException\<close> standing for any
  further subclass of Python's \<^verbatim>\<open>Exception\<close>.
\<close>

subsection \<open>Exceptions and commands\<close>

datatype exn =
    EapiCommandError string
  | HTTPError string
  | ConnectError string
  | OtherException string

datatype ofmt_t = Json | Text

datatype version_t = V1 | Latest

text \<open>
  What \<^verbatim>\<open>collect\<close> stores in \<^verbatim>\<open>command.output\<close>: the entry of the command itself
  (\<^verbatim>\<open>response[1]\<close>), or the response as it came.
\<close>

datatype 'o response = Selected 'o | Entire "'o list"

text \<open>
  Modelled from the spec: the class \<^verbatim>\<open>AntaCommand\<close> is declared in \<^verbatim>\<open>anta.models\<close>, which
  is not among the sources. The record has the attributes that \<^verbatim>\<open>device.py\<close> reads
  (\<^verbatim>\<open>command\<close>, \<^verbatim>\<open>version\<close>, \<^verbatim>\<open>revision\<close>, \<^verbatim>\<open>ofmt\<close>) and writes (\<^verbatim>\<open>output\<close>, here \<open>output_val\<close>, and \<^verbatim>\<open>failed\<close>);
  the spec lists them as text, protocol version, revision, output format, output and
  failure. The output format is one of \<^verbatim>\<open>json\<close> and \<^verbatim>\<open>text\<close>.
\<close>

record 'o AntaCommand =
  command :: string
  version :: version_t
  revision :: "nat option"
  ofmt :: ofmt_t
  output_val :: "'o response option"
  failed :: "exn option"

subsection \<open>The device\<close>

datatype proto_t = Http | Https

text \<open>
  The attributes of the \<^verbatim>\<open>aioeapi.Device\<close> session and of the SSH options that
  \<^verbatim>\<open>AsyncEOSDevice.__init__\<close> sets.
\<close>

record eapi_session =
  host :: string
  port :: int
  username :: string
  password :: string
  proto :: proto_t
  timeout :: "int option"

record ssh_options =
  ssh_host :: string
  ssh_port :: "int option"
  ssh_username :: string
  ssh_password :: string
  known_hosts_disabled :: bool

record AntaDevice =
  name :: string
  hw_model :: "string option"
  tags :: "string list"
  is_online :: bool
  established :: bool

record AsyncEOSDevice = AntaDevice +
  enable_password :: "string option"
  session :: eapi_session
  ssh_opts :: ssh_options

text \<open>
  Modelled from the spec: \<^verbatim>\<open>DEFAULT_TAG\<close> is imported from \<^verbatim>\<open>anta.models\<close>, which is not
  among the sources; the spec says that the tags always include an implicit
  \<^verbatim>\<open>all\<close> tag.
\<close>

definition DEFAULT_TAG :: string where
  "DEFAULT_TAG = ''all''"

subsection \<open>Decimal rendering of integers\<close>

definition digit_char :: "nat \<Rightarrow> char" where
  "digit_char d = ''0123456789'' ! d"

fun str_nat :: "nat \<Rightarrow> string" where
  "str_nat n = (if n < 10 then [digit_char n] else str_nat (n div 10) @ [digit_char (n mod 10)])"

declare str_nat.simps [simp del]

definition str_int :: "int \<Rightarrow> string" where
  "str_int i = (if i < 0 then CHR ''-'' # str_nat (nat (- i)) else str_nat (nat i))"

subsection \<open>Construction\<close>

text \<open>\<^verbatim>\<open>AntaDevice.__init__\<close>: the tag \<^verbatim>\<open>all\<close> is appended when it is missing.\<close>

definition AntaDevice_init :: "string \<Rightarrow> string list option \<Rightarrow> AntaDevice" where
  "AntaDevice_init nm tgs =
     (let ts = (case tgs of Some t \<Rightarrow> t | None \<Rightarrow> [])
      in \<lparr> name = nm,
           hw_model = None,
           tags = (if DEFAULT_TAG \<notin> set ts then ts @ [DEFAULT_TAG] else ts),
           is_online = False,
           established = False \<rparr>)"

text \<open>
  The constructor of the session belongs to \<^verbatim>\<open>aioeapi\<close>; the docstring of
  \<^verbatim>\<open>AsyncEOSDevice.__init__\<close> gives its default for the port: 80 for \<^verbatim>\<open>http\<close>, 443 for
  \<^verbatim>\<open>https\<close>.
\<close>

definition Device_init ::
  "string \<Rightarrow> int option \<Rightarrow> string \<Rightarrow> string \<Rightarrow> proto_t \<Rightarrow> int option \<Rightarrow> eapi_session" where
  "Device_init h prt user pw prot tmo =
     \<lparr> host = h,
       port = (case prt of Some p \<Rightarrow> p | None \<Rightarrow> (if prot = Http then 80 else 443)),
       username = user, password = pw, proto = prot, timeout = tmo \<rparr>"

text \<open>
  \<^verbatim>\<open>AsyncEOSDevice.__init__\<close>. The default name is \<^verbatim>\<open>f"{host}:{port}"\<close>, where an
  absent port prints as \<^verbatim>\<open>None\<close>.
\<close>

definition AsyncEOSDevice_init ::
  "string \<Rightarrow> string \<Rightarrow> string \<Rightarrow> string option \<Rightarrow> string option \<Rightarrow> int option \<Rightarrow>
   int option \<Rightarrow> string list option \<Rightarrow> int option \<Rightarrow> bool \<Rightarrow> proto_t \<Rightarrow> AsyncEOSDevice" where
  "AsyncEOSDevice_init h user pw nm enable_pw prt sshp tgs tmo insecure prot =
     (let nm' = (case nm of
                   Some n \<Rightarrow> n
                 | None \<Rightarrow> h @ '':'' @ (case prt of None \<Rightarrow> ''None'' | Some p \<Rightarrow> str_int p))
      in AntaDevice.extend (AntaDevice_init nm' tgs)
           (AsyncEOSDevice.fields enable_pw
              (Device_init h prt user pw prot tmo)
              \<lparr> ssh_host = h, ssh_port = sshp, ssh_username = user, ssh_password = pw,
                known_hosts_disabled = insecure \<rparr>))"

subsection \<open>The eAPI endpoint\<close>

text \<open>
  One entry of the list that \<^verbatim>\<open>collect\<close> passes to \<^verbatim>\<open>Device.cli\<close>: the dictionary
  with the key \<^verbatim>\<open>cmd\<close> and, when present, \<^verbatim>\<open>input\<close> and \<^verbatim>\<open>revision\<close>.
\<close>

record eapi_cmd =
  cmd :: string
  cmd_input :: "string option"
  cmd_revision :: "nat option"

record eapi_request =
  cmds :: "eapi_cmd list"
  req_ofmt :: ofmt_t
  req_version :: version_t

text \<open>
  The transport is the library \<^verbatim>\<open>aioeapi\<close>, outside the repository. Its state is the
  answer of the port check (\<^verbatim>\<open>check_connection\<close>), the behaviour of the remote end
  (which may depend on the requests already sent), and the log of the requests sent
  so far. The port check answers a Boolean and does not raise. A request either
  raises or returns a list of entries; eAPI answers with one entry per submitted
  command, which the model does not assume.
\<close>

record 'o eapi =
  reachable :: bool
  respond :: "eapi_request list \<Rightarrow> eapi_request \<Rightarrow> exn + 'o list"
  sent :: "eapi_request list"

definition check_connection :: "'o eapi \<Rightarrow> bool" where
  "check_connection net = reachable net"

definition cli :: "eapi_request \<Rightarrow> 'o eapi \<Rightarrow> (exn + 'o list) \<times> 'o eapi" where
  "cli req net = (respond net (sent net) req, net\<lparr>sent := sent net @ [req]\<rparr>)"

subsection \<open>\<^verbatim>\<open>AsyncEOSDevice.collect\<close> and \<^verbatim>\<open>AntaDevice.collect_commands\<close>\<close>

text \<open>The request that \<^verbatim>\<open>collect\<close> builds: the \<^verbatim>\<open>enable\<close> entry, then the command.\<close>

definition collect_request :: "AsyncEOSDevice \<Rightarrow> 'o AntaCommand \<Rightarrow> eapi_request" where
  "collect_request self c =
     (let commands0 =
            (if enable_password self \<noteq> None
             then [\<lparr> cmd = ''enable'', cmd_input = enable_password self, cmd_revision = None \<rparr>]
             else [\<lparr> cmd = ''enable'', cmd_input = None, cmd_revision = None \<rparr>]);
          commands1 =
            (if revision c \<noteq> None \<and> revision c \<noteq> Some 0
             then commands0 @ [\<lparr> cmd = command c, cmd_input = None, cmd_revision = revision c \<rparr>]
             else commands0 @ [\<lparr> cmd = command c, cmd_input = None, cmd_revision = None \<rparr>])
      in \<lparr> cmds = commands1, req_ofmt = ofmt c, req_version = version c \<rparr>)"

text \<open>
  \<^verbatim>\<open>collect\<close> returns nothing; the model returns the device and the command as they are
  after the call, and the endpoint. Every exception raised inside the \<^verbatim>\<open>try\<close> block,
  also the \<^verbatim>\<open>IndexError\<close> of \<^verbatim>\<open>response[1]\<close> on a response with fewer than two entries,
  reaches one of the three handlers, and each handler assigns \<^verbatim>\<open>command.failed\<close>.
\<close>

definition collect ::
  "AsyncEOSDevice \<Rightarrow> 'o AntaCommand \<Rightarrow> 'o eapi \<Rightarrow> (AsyncEOSDevice \<times> 'o AntaCommand) \<times> 'o eapi" where
  "collect self c net =
     (case cli (collect_request self c) net of
        (Inr resp, net') \<Rightarrow>
          (if ofmt c \<in> set [Json, Text]
           then (if 1 < length resp
                 then ((self, c\<lparr>output_val := Some (Selected (resp ! 1))\<rparr>), net')
                 else ((self, c\<lparr>failed := Some (OtherException ''IndexError'')\<rparr>), net'))
           else ((self, c\<lparr>output_val := Some (Entire resp)\<rparr>), net'))
      | (Inl (EapiCommandError m), net') \<Rightarrow> ((self, c\<lparr>failed := Some (EapiCommandError m)\<rparr>), net')
      | (Inl (HTTPError m), net') \<Rightarrow> ((self, c\<lparr>failed := Some (HTTPError m)\<rparr>), net')
      | (Inl (ConnectError m), net') \<Rightarrow> ((self, c\<lparr>failed := Some (ConnectError m)\<rparr>), net')
      | (Inl (OtherException m), net') \<Rightarrow> ((self, c\<lparr>failed := Some (OtherException m)\<rparr>), net'))"

text \<open>
  \<^verbatim>\<open>collect_commands\<close> gathers one \<^verbatim>\<open>collect\<close> per element of the list. Each coroutine
  awaits the transport once and writes only to its own command, so the model runs
  them in list order; the endpoint's answers may depend on that order through
  \<open>respond\<close>.
\<close>

fun collect_commands ::
  "AsyncEOSDevice \<Rightarrow> 'o AntaCommand list \<Rightarrow> 'o eapi \<Rightarrow>
   (AsyncEOSDevice \<times> 'o AntaCommand list) \<times> 'o eapi" where
  "collect_commands self [] net = ((self, []), net)"
| "collect_commands self (c # cs) net =
     (case collect self c net of
        ((self', c'), net') \<Rightarrow>
          (case collect_commands self' cs net' of
             ((self'', cs'), net'') \<Rightarrow> ((self'', c' # cs'), net'')))"

subsection \<open>\<^verbatim>\<open>AsyncEOSDevice.refresh\<close>\<close>

definition COMMAND :: string where
  "COMMAND = ''show version''"

definition HW_MODEL_KEY :: string where
  "HW_MODEL_KEY = ''modelName''"

text \<open>
  \<^verbatim>\<open>Device.cli(command=...)\<close> sends one command with the library's defaults (format
  \<^verbatim>\<open>json\<close>, version \<^verbatim>\<open>latest\<close>) and returns the first entry of the response.
\<close>

definition cli_command :: "string \<Rightarrow> 'o eapi \<Rightarrow> (exn + 'o) \<times> 'o eapi" where
  "cli_command c net =
     (case cli \<lparr> cmds = [\<lparr> cmd = c, cmd_input = None, cmd_revision = None \<rparr>],
                 req_ofmt = Json, req_version = Latest \<rparr> net of
        (Inl e, net') \<Rightarrow> (Inl e, net')
      | (Inr [], net') \<Rightarrow> (Inl (OtherException ''IndexError''), net')
      | (Inr (r # rs), net') \<Rightarrow> (Inr r, net'))"

text \<open>
  Python's \<^verbatim>\<open>bool(self.is_online and self.hw_model)\<close>: \<^verbatim>\<open>None\<close> and the empty string are
  false, every other string is true.
\<close>

definition py_bool_and :: "bool \<Rightarrow> string option \<Rightarrow> bool" where
  "py_bool_and b s = (b \<and> (case s of None \<Rightarrow> False | Some m \<Rightarrow> m \<noteq> []))"

definition set_established :: "AsyncEOSDevice \<Rightarrow> AsyncEOSDevice" where
  "set_established self = self\<lparr>established := py_bool_and (is_online self) (hw_model self)\<rparr>"

text \<open>
  The answer to \<^verbatim>\<open>show version\<close> is a dictionary, here an association list from keys
  to strings. \<^verbatim>\<open>refresh\<close> handles \<^verbatim>\<open>EapiCommandError\<close>, \<^verbatim>\<open>HTTPError\<close> and
  \<^verbatim>\<open>ConnectError\<close>; it has no handler for other exceptions, which leave the coroutine
  after \<^verbatim>\<open>is_online\<close> has been assigned and before \<^verbatim>\<open>established\<close> is. The model returns
  the raised exception, if any, beside the device as the call leaves it.
\<close>

definition refresh ::
  "AsyncEOSDevice \<Rightarrow> (string \<times> string) list eapi \<Rightarrow>
   (exn option \<times> AsyncEOSDevice) \<times> (string \<times> string) list eapi" where
  "refresh self net =
     (let self1 = self\<lparr>is_online := check_connection net\<rparr>
      in if is_online self1
         then (case cli_command COMMAND net of
                 (Inl (EapiCommandError m), net') \<Rightarrow> ((None, set_established self1), net')
               | (Inl (HTTPError m), net') \<Rightarrow> ((None, set_established self1), net')
               | (Inl (ConnectError m), net') \<Rightarrow> ((None, set_established self1), net')
               | (Inl (OtherException m), net') \<Rightarrow> ((Some (OtherException m), self1), net')
               | (Inr resp, net') \<Rightarrow>
                   (case map_of resp HW_MODEL_KEY of
                      Some m \<Rightarrow> ((None, set_established (self1\<lparr>hw_model := Some m\<rparr>)), net')
                    | None \<Rightarrow> ((None, set_established self1), net')))
         else ((None, set_established self1), net))"

subsection \<open>\<^verbatim>\<open>AsyncEOSDevice.__eq__\<close>\<close>

text \<open>The right operand is any Python object: an \<^verbatim>\<open>AsyncEOSDevice\<close> or something else.\<close>

datatype 'x py_object = AsyncEOSDevice_obj AsyncEOSDevice | Other_obj 'x

fun AsyncEOSDevice_eq :: "AsyncEOSDevice \<Rightarrow> 'x py_object \<Rightarrow> bool" where
  "AsyncEOSDevice_eq self (Other_obj x) = False"
| "AsyncEOSDevice_eq self (AsyncEOSDevice_obj other) =
     (host (session self) = host (session other) \<and> port (session self) = port (session other))"

subsection \<open>Test results\<close>

text \<open>
  Modelled from the spec: the class \<^verbatim>\<open>TestResult\<close> lives in
  \<^verbatim>\<open>anta.result_manager.models\<close>, which is not among the sources. The spec gives a result
  one of five states and an ordered list of messages; it is unset before the
  evaluation begins.
\<close>

datatype result_t = Unset | Skipped | Success | Failure | Error

record TestResult =
  result :: result_t
  messages :: "string list"

definition TestResult_init :: TestResult where
  "TestResult_init = \<lparr> result = Unset, messages = [] \<rparr>"

text \<open>
  Modelled from the spec: \<^verbatim>\<open>TestResult.is_success\<close> is not among the sources. The spec:
  success is the default, and a success reported after a failure does not revert the
  verdict.
\<close>

definition is_success :: "TestResult \<Rightarrow> TestResult" where
  "is_success r = (if result r = Failure then r else r\<lparr>result := Success\<rparr>)"

text \<open>
  Modelled from the spec: \<^verbatim>\<open>TestResult.is_failure\<close> is not among the sources. The spec:
  a failure may be reported several times, its messages accumulate, an earlier
  failure is not overwritten, and every test that reports a failure ends with the
  verdict failure; so the call sets the verdict from any state.
\<close>

definition is_failure :: "string \<Rightarrow> TestResult \<Rightarrow> TestResult" where
  "is_failure m r = r\<lparr>result := Failure, messages := messages r @ [m]\<rparr>"

text \<open>
  Modelled from the spec: \<^verbatim>\<open>TestResult.is_skipped\<close> is not among the sources. The spec:
  a skip carries an explanatory message, and failure is sticky once set; so a skip
  that follows a failure keeps the verdict and adds its message. The spec calls a
  skip terminal for the run of a test: an evaluation that declines to run reports
  nothing after it.
\<close>

definition is_skipped :: "string \<Rightarrow> TestResult \<Rightarrow> TestResult" where
  "is_skipped m r =
     (if result r = Failure then r\<lparr>messages := messages r @ [m]\<rparr>
      else r\<lparr>result := Skipped, messages := messages r @ [m]\<rparr>)"

text \<open>
  Modelled from the spec: \<^verbatim>\<open>TestResult.is_error\<close> is not among the sources. The spec:
  error is the verdict for a probe that broke or an exception at evaluation time,
  with the exception text as the message; the evaluation logic itself never
  reports it.
\<close>

definition is_error :: "string \<Rightarrow> TestResult \<Rightarrow> TestResult" where
  "is_error m r = r\<lparr>result := Error, messages := messages r @ [m]\<rparr>"

text \<open>The calls an evaluation makes on its result, in order.\<close>

datatype result_call = Call_is_success | Call_is_failure string | Call_is_skipped string

fun apply_call :: "TestResult \<Rightarrow> result_call \<Rightarrow> TestResult" where
  "apply_call r Call_is_success = is_success r"
| "apply_call r (Call_is_failure m) = is_failure m r"
| "apply_call r (Call_is_skipped m) = is_skipped m r"

definition run_calls :: "result_call list \<Rightarrow> TestResult \<Rightarrow> TestResult" where
  "run_calls cs r = foldl apply_call r cs"

fun failure_message :: "result_call \<Rightarrow> string list" where
  "failure_message (Call_is_failure m) = [m]"
| "failure_message _ = []"

fun reported_message :: "result_call \<Rightarrow> string list" where
  "reported_message Call_is_success = []"
| "reported_message (Call_is_failure m) = [m]"
| "reported_message (Call_is_skipped m) = [m]"

fun is_skip_call :: "result_call \<Rightarrow> bool" where
  "is_skip_call (Call_is_skipped m) = True"
| "is_skip_call _ = False"

subsection \<open>Python's \<^verbatim>\<open>repr\<close> of strings and dictionaries\<close>

text \<open>
  A character is a code point below 256. \<^verbatim>\<open>repr\<close> of a string picks the double quote
  when the string holds a single quote and no double quote, escapes the chosen quote
  and the backslash, writes tab, newline and carriage return as \<^verbatim>\<open>\t\<close>, \<^verbatim>\<open>\n\<close>, \<^verbatim>\<open>\r\<close>,
  and every other non-printable code point as \<^verbatim>\<open>\xhh\<close>.
\<close>

definition hex_digit :: "nat \<Rightarrow> char" where
  "hex_digit d = ''0123456789abcdef'' ! d"

definition py_printable :: "char \<Rightarrow> bool" where
  "py_printable c =
     (let n = (of_char c :: nat)
      in (32 \<le> n \<and> n < 127) \<or> (161 \<le> n \<and> n \<noteq> 173))"

definition py_repr_char :: "char \<Rightarrow> char \<Rightarrow> string" where
  "py_repr_char q c =
     (if c = q \<or> c = CHR 0x5C then [CHR 0x5C, c]
      else if c = CHR 0x09 then [CHR 0x5C, CHR ''t'']
      else if c = CHR 0x0A then [CHR 0x5C, CHR ''n'']
      else if c = CHR 0x0D then [CHR 0x5C, CHR ''r'']
      else if \<not> py_printable c
        then [CHR 0x5C, CHR ''x'', hex_digit (of_char c div 16), hex_digit (of_char c mod 16)]
      else [c])"

definition py_repr_str :: "string \<Rightarrow> string" where
  "py_repr_str s =
     (let q = (if CHR 0x27 \<in> set s \<and> CHR 0x22 \<notin> set s then CHR 0x22 else CHR 0x27)
      in q # concat (map (py_repr_char q) s) @ [q])"

fun py_join :: "string \<Rightarrow> string list \<Rightarrow> string" where
  "py_join sep [] = []"
| "py_join sep [x] = x"
| "py_join sep (x # y # ys) = x @ sep @ py_join sep (y # ys)"

text \<open>
  A dictionary is an association list in insertion order, its keys distinct.
  \<^verbatim>\<open>repr\<close> of a dictionary with string keys, given the \<^verbatim>\<open>repr\<close> of its values.
\<close>

definition py_repr_dict :: "('v \<Rightarrow> string) \<Rightarrow> (string \<times> 'v) list \<Rightarrow> string" where
  "py_repr_dict repr_v d =
     ''{'' @ py_join '', '' (map (\<lambda>(k, v). py_repr_str k @ '': '' @ repr_v v) d) @ ''}''"

subsection \<open>\<^verbatim>\<open>_check_bgp_vrfs\<close> and \<^verbatim>\<open>VerifyBGPIPv4UnicastState.test\<close>\<close>

text \<open>
  The output of \<^verbatim>\<open>show bgp ipv4 unicast summary vrf all\<close>, reduced to the keys that the
  test reads: \<^verbatim>\<open>vrfs\<close>, for each VRF its \<^verbatim>\<open>peers\<close>, for each peer \<^verbatim>\<open>peerState\<close>,
  \<^verbatim>\<open>inMsgQueue\<close> and \<^verbatim>\<open>outMsgQueue\<close>.
\<close>

record bgp_peer =
  peerState :: string
  inMsgQueue :: int
  outMsgQueue :: int

record bgp_vrf =
  peers :: "(string \<times> bgp_peer) list"

record bgp_summary =
  vrfs :: "(string \<times> bgp_vrf) list"

type_synonym state_issue_t = "(string \<times> (string \<times> bgp_peer) list) list"

text \<open>
  The inner loop over the peers of one VRF. \<^verbatim>\<open>state_issue.setdefault(vrf, {})\<close> yields
  the dictionary already stored under the VRF, or stores an empty one at the end;
  \<^verbatim>\<open>update\<close> then writes the peer's entry into it.
\<close>

fun check_bgp_peers :: "string \<Rightarrow> (string \<times> bgp_peer) list \<Rightarrow> state_issue_t \<Rightarrow> state_issue_t" where
  "check_bgp_peers vrf [] state_issue = state_issue"
| "check_bgp_peers vrf ((peer, p) # rest) state_issue =
     (if peerState p \<noteq> ''Established'' \<or> inMsgQueue p \<noteq> 0 \<or> outMsgQueue p \<noteq> 0
      then (let vrf_dict = (case map_of state_issue vrf of None \<Rightarrow> [] | Some d \<Rightarrow> d);
                vrf_dict' = AList.update peer
                              \<lparr> peerState = peerState p,
                                inMsgQueue = inMsgQueue p,
                                outMsgQueue = outMsgQueue p \<rparr> vrf_dict
            in check_bgp_peers vrf rest (AList.update vrf vrf_dict' state_issue))
      else check_bgp_peers vrf rest state_issue)"

fun check_bgp_vrfs_loop :: "(string \<times> bgp_vrf) list \<Rightarrow> state_issue_t \<Rightarrow> state_issue_t" where
  "check_bgp_vrfs_loop [] state_issue = state_issue"
| "check_bgp_vrfs_loop ((vrf, v) # rest) state_issue =
     check_bgp_vrfs_loop rest (check_bgp_peers vrf (peers v) state_issue)"

definition check_bgp_vrfs :: "(string \<times> bgp_vrf) list \<Rightarrow> state_issue_t" where
  "check_bgp_vrfs bgp_vrfs = check_bgp_vrfs_loop bgp_vrfs []"

definition py_repr_peer :: "bgp_peer \<Rightarrow> string" where
  "py_repr_peer p =
     ''{'' @ py_repr_str ''peerState'' @ '': '' @ py_repr_str (peerState p) @ '', ''
          @ py_repr_str ''inMsgQueue'' @ '': '' @ str_int (inMsgQueue p) @ '', ''
          @ py_repr_str ''outMsgQueue'' @ '': '' @ str_int (outMsgQueue p) @ ''}''"

definition py_repr_state_issue :: "state_issue_t \<Rightarrow> string" where
  "py_repr_state_issue si = py_repr_dict (py_repr_dict py_repr_peer) si"

text \<open>
  The body of \<^verbatim>\<open>VerifyBGPIPv4UnicastState.test\<close> (the statements under the two
  decorators), applied to the JSON output of the test's command and to the result
  of the test.
\<close>

definition VerifyBGPIPv4UnicastState_test_body :: "bgp_summary \<Rightarrow> TestResult \<Rightarrow> TestResult" where
  "VerifyBGPIPv4UnicastState_test_body command_output r =
     (let state_issue = check_bgp_vrfs (vrfs command_output)
      in if state_issue = [] then is_success r
         else is_failure (''Some IPv4 Unicast BGP Peer are not up: '' @ py_repr_state_issue state_issue) r)"

text \<open>The text of the exception recorded on a command.\<close>

fun exn_text :: "exn \<Rightarrow> string" where
  "exn_text (EapiCommandError m) = m"
| "exn_text (HTTPError m) = m"
| "exn_text (ConnectError m) = m"
| "exn_text (OtherException m) = m"

text \<open>
  Modelled from the spec: the decorator \<^verbatim>\<open>AntaTest.anta_test\<close> lives in \<^verbatim>\<open>anta.models\<close>,
  which is not among the sources. The spec, on the evaluation of a test: a command
  that carries a failure surfaces as error, not as failure; a command left with
  neither output nor failure is an internal error; otherwise the evaluation logic
  runs on the output of the command. The body above raises nothing on an output of
  the modelled type, which has every key the body reads. The spec does not give
  the text of the message for a command without output.
\<close>

definition anta_test ::
  "('o \<Rightarrow> TestResult \<Rightarrow> TestResult) \<Rightarrow> 'o AntaCommand \<Rightarrow> TestResult \<Rightarrow> TestResult" where
  "anta_test function c r =
     (case failed c of
        Some e \<Rightarrow> is_error (exn_text e) r
      | None \<Rightarrow>
          (case output_val c of
             Some (Selected command_output) \<Rightarrow> function command_output r
           | Some (Entire response) \<Rightarrow> is_error ''command has no JSON output'' r
           | None \<Rightarrow> is_error ''command has no JSON output'' r))"

text \<open>
  Modelled from the spec: the decorator \<^verbatim>\<open>check_bgp_family_enable\<close> lives in
  \<^verbatim>\<open>anta.decorators\<close>, which is not among the sources. The spec, on the gate of a test:
  before the evaluation, a predicate may short-circuit directly to skipped with an
  explanatory message; otherwise the test goes on. When this gate declines is not
  in the sources, so its decision is the parameter \<open>gate\<close>: given the address family
  and the command with the answer of the device, \<open>None\<close> to go on or the message of
  the skip.
\<close>

definition check_bgp_family_enable ::
  "(string \<Rightarrow> 'c \<Rightarrow> string option) \<Rightarrow> string \<Rightarrow> ('c \<Rightarrow> TestResult \<Rightarrow> TestResult) \<Rightarrow>
   'c \<Rightarrow> TestResult \<Rightarrow> TestResult" where
  "check_bgp_family_enable gate family function c r =
     (case gate family c of
        Some m \<Rightarrow> is_skipped m r
      | None \<Rightarrow> function c r)"

text \<open>
  \<^verbatim>\<open>VerifyBGPIPv4UnicastState.test\<close> as the class declares it: the body under
  \<^verbatim>\<open>AntaTest.anta_test\<close> under \<^verbatim>\<open>check_bgp_family_enable("ipv4")\<close>, applied to the command
  of the test (\<^verbatim>\<open>instance_commands[0]\<close>) and to the result of the test.
\<close>

definition VerifyBGPIPv4UnicastState_test ::
  "(string \<Rightarrow> bgp_summary AntaCommand \<Rightarrow> string option) \<Rightarrow> bgp_summary AntaCommand \<Rightarrow>
   TestResult \<Rightarrow> TestResult" where
  "VerifyBGPIPv4UnicastState_test gate c r =
     check_bgp_family_enable gate ''ipv4'' (anta_test VerifyBGPIPv4UnicastState_test_body) c r"

text \<open>
  The class docstring of \<^verbatim>\<open>VerifyBGPIPv4UnicastState\<close>: the result is skipped if no BGP
  VRF is returned by the device. A gate that declines then; the text of its message
  is not in the sources.
\<close>

definition no_vrf_gate :: "string \<Rightarrow> bgp_summary AntaCommand \<Rightarrow> string option" where
  "no_vrf_gate family c =
     (case output_val c of
        Some (Selected command_output) \<Rightarrow>
          (if vrfs command_output = [] then Some (''no '' @ family @ '' peer on this device'')
           else None)
      | Some (Entire response) \<Rightarrow> None
      | None \<Rightarrow> None)"

subsection \<open>\<^verbatim>\<open>anta.tools.utils\<close>\<close>

text \<open>
  Keys and values of the two dictionaries: \<^verbatim>\<open>None\<close>, integers and strings, on which
  Python's \<^verbatim>\<open>==\<close> is equality of values.
\<close>

datatype pyval = PyNone | PyInt int | PyStr string

fun py_str :: "pyval \<Rightarrow> string" where
  "py_str PyNone = ''None''"
| "py_str (PyInt i) = str_int i"
| "py_str (PyStr s) = s"

text \<open>\<^verbatim>\<open>dict.get(key)\<close>: the value stored under the key, \<^verbatim>\<open>None\<close> when there is none.\<close>

definition dict_get :: "(pyval \<times> pyval) list \<Rightarrow> pyval \<Rightarrow> pyval" where
  "dict_get d k = (case map_of d k of None \<Rightarrow> PyNone | Some v \<Rightarrow> v)"

definition not_found_log :: "pyval \<Rightarrow> pyval \<Rightarrow> string" where
  "not_found_log element expected_data =
     [CHR 0x0A] @ ''Expected `'' @ py_str expected_data @ ''` as the '' @ py_str element
       @ '', but it was not found in the actual output.''"

definition instead_log :: "pyval \<Rightarrow> pyval \<Rightarrow> pyval \<Rightarrow> string" where
  "instead_log element expected_data actual_data =
     [CHR 0x0A] @ ''Expected `'' @ py_str expected_data @ ''` as the '' @ py_str element
       @ '', but found `'' @ py_str actual_data @ ''` instead.''"

text \<open>One pass of the loop body: what it leaves in \<^verbatim>\<open>failed_logs\<close>.\<close>

definition get_failed_logs_body ::
  "pyval \<Rightarrow> pyval \<Rightarrow> (pyval \<times> pyval) list \<Rightarrow> string list \<Rightarrow> string list" where
  "get_failed_logs_body element expected_data actual_output failed_logs =
     (let actual_data = dict_get actual_output element
      in if actual_data = expected_data then failed_logs
         else if actual_data = PyNone
           then failed_logs @ [not_found_log element expected_data]
         else if actual_data \<noteq> expected_data
           then failed_logs @ [instead_log element expected_data actual_data]
         else failed_logs)"

fun get_failed_logs_loop ::
  "(pyval \<times> pyval) list \<Rightarrow> (pyval \<times> pyval) list \<Rightarrow> string list \<Rightarrow> string list" where
  "get_failed_logs_loop [] actual_output failed_logs = failed_logs"
| "get_failed_logs_loop ((element, expected_data) # rest) actual_output failed_logs =
     get_failed_logs_loop rest actual_output
       (get_failed_logs_body element expected_data actual_output failed_logs)"

definition get_failed_logs :: "(pyval \<times> pyval) list \<Rightarrow> (pyval \<times> pyval) list \<Rightarrow> string" where
  "get_failed_logs expected_output actual_output =
     concat (get_failed_logs_loop expected_output actual_output [])"

subsection \<open>Python numbers and \<^verbatim>\<open>custom_division\<close>\<close>

text \<open>
  An argument of \<^verbatim>\<open>custom_division\<close> is a Python \<^verbatim>\<open>int\<close> or a Python \<^verbatim>\<open>float\<close>
  (the annotation \<^verbatim>\<open>float\<close> admits both). A float is an IEEE-754 double: a finite value
  \<open>m \<cdot> 2\<^sup>e\<close>, an infinity with its sign (\<open>True\<close> for the negative one), or not-a-number.
  The value of a double has \<open>\<bar>m\<bar> < 2\<^sup>5\<^sup>3\<close>, \<open>- 1074 \<le> e\<close> and magnitude below \<open>2\<^sup>1\<^sup>0\<^sup>2\<^sup>4\<close>;
  the sign of a zero is not kept, since neither \<^verbatim>\<open>is_integer\<close> nor \<^verbatim>\<open>int\<close> nor the test for
  a zero divisor reads it.
\<close>

datatype pyfloat = Finite int int | Infinity bool | NaN

datatype pynumber = PInt int | PFloat pyfloat

datatype py_error = ZeroDivisionError | OverflowError | ValueError

text \<open>The number of binary digits of a natural number.\<close>

fun bitlen :: "nat \<Rightarrow> nat" where
  "bitlen n = (if n = 0 then 0 else Suc (bitlen (n div 2)))"

declare bitlen.simps [simp del]

text \<open>Whether \<open>2\<^sup>k \<le> a / b\<close>, and the exponent \<open>e\<close> with \<open>2\<^sup>e \<le> a / b < 2\<^sup>e\<^sup>+\<^sup>1\<close>, for positive \<open>a\<close>, \<open>b\<close>.\<close>

definition le_pow2 :: "int \<Rightarrow> nat \<Rightarrow> nat \<Rightarrow> bool" where
  "le_pow2 k a b = (if 0 \<le> k then b * 2 ^ nat k \<le> a else b \<le> a * 2 ^ nat (- k))"

definition floor_log2 :: "nat \<Rightarrow> nat \<Rightarrow> int" where
  "floor_log2 a b =
     (let k = int (bitlen a) - int (bitlen b)
      in if le_pow2 k a b then k else k - 1)"

text \<open>The integer nearest to \<open>a / b\<close>, a tie going to the even one.\<close>

definition round_half_even :: "nat \<Rightarrow> nat \<Rightarrow> nat" where
  "round_half_even a b =
     (let q = a div b; r = a mod b
      in if 2 * r < b then q
         else if b < 2 * r then q + 1
         else if even q then q else q + 1)"

text \<open>
  The double nearest to \<open>\<plusminus> a / b\<close> (round to nearest, ties to even), as IEEE-754
  arithmetic and Python's conversions produce it: 53 significant bits, gradual
  underflow below \<open>2\<^sup>-\<^sup>1\<^sup>0\<^sup>2\<^sup>2\<close> with the quantum \<open>2\<^sup>-\<^sup>1\<^sup>0\<^sup>7\<^sup>4\<close>, and an infinity when the
  rounded value reaches \<open>2\<^sup>1\<^sup>0\<^sup>2\<^sup>4\<close>. For a value in \<open>[2\<^sup>e, 2\<^sup>e\<^sup>+\<^sup>1)\<close> the quantum is
  \<open>2\<^sup>q\<close> with \<open>q = max (e - 52) (- 1074)\<close>; the value is rounded to a multiple
  \<open>m \<cdot> 2\<^sup>q\<close>; a mantissa that rounds up to \<open>2\<^sup>5\<^sup>3\<close> is renormalised.
\<close>

definition quantum_exp :: "int \<Rightarrow> int" where
  "quantum_exp e = max (e - 52) (- 1074)"

definition round_scaled :: "int \<Rightarrow> nat \<Rightarrow> nat \<Rightarrow> nat" where
  "round_scaled q a b =
     (if 0 \<le> q then round_half_even a (b * 2 ^ nat q)
      else round_half_even (a * 2 ^ nat (- q)) b)"

definition pack_double :: "bool \<Rightarrow> nat \<Rightarrow> int \<Rightarrow> pyfloat" where
  "pack_double neg m q =
     (if m = 2 ^ 53
      then (if 971 < q + 1 then Infinity neg
            else Finite (if neg then - (2 ^ 52) else 2 ^ 52) (q + 1))
      else (if 971 < q then Infinity neg
            else Finite (if neg then - int m else int m) q))"

definition round_to_double :: "bool \<Rightarrow> nat \<Rightarrow> nat \<Rightarrow> pyfloat" where
  "round_to_double neg a b =
     (if a = 0 then Finite 0 0
      else pack_double neg (round_scaled (quantum_exp (floor_log2 a b)) a b)
             (quantum_exp (floor_log2 a b)))"

text \<open>
  The conversion of an \<^verbatim>\<open>int\<close> operand to \<^verbatim>\<open>float\<close>: correctly rounded, and an
  \<^verbatim>\<open>OverflowError\<close> when the integer is beyond the range of a double.
\<close>

definition to_float :: "pynumber \<Rightarrow> py_error + pyfloat" where
  "to_float x =
     (case x of
        PFloat f \<Rightarrow> Inr f
      | PInt n \<Rightarrow>
          (case round_to_double (n < 0) (nat \<bar>n\<bar>) 1 of
             Infinity s \<Rightarrow> Inl OverflowError
           | Finite m e \<Rightarrow> Inr (Finite m e)
           | NaN \<Rightarrow> Inr NaN))"

text \<open>
  Division of two floats: a zero divisor raises, whatever the dividend; the special
  values follow IEEE-754; the quotient of two finite values is rounded once, and
  becomes an infinity when it is too large.
\<close>

fun float_div :: "pyfloat \<Rightarrow> pyfloat \<Rightarrow> py_error + pyfloat" where
  "float_div x (Finite m2 e2) =
     (if m2 = 0 then Inl ZeroDivisionError
      else (case x of
              NaN \<Rightarrow> Inr NaN
            | Infinity s \<Rightarrow> Inr (Infinity (s \<noteq> (m2 < 0)))
            | Finite m1 e1 \<Rightarrow>
                Inr (round_to_double ((m1 < 0) \<noteq> (m2 < 0))
                       (nat \<bar>m1\<bar> * 2 ^ nat (e1 - e2)) (nat \<bar>m2\<bar> * 2 ^ nat (e2 - e1)))))"
| "float_div x NaN = Inr NaN"
| "float_div NaN (Infinity s2) = Inr NaN"
| "float_div (Infinity s1) (Infinity s2) = Inr NaN"
| "float_div (Finite m1 e1) (Infinity s2) = Inr (Finite 0 0)"

text \<open>
  Python's \<^verbatim>\<open>/\<close>. Two \<^verbatim>\<open>int\<close> operands give the correctly rounded quotient, with a
  \<^verbatim>\<open>ZeroDivisionError\<close> for the divisor 0 and an \<^verbatim>\<open>OverflowError\<close> when the quotient is
  beyond the range of a double. Otherwise both operands are converted to \<^verbatim>\<open>float\<close>,
  the left one first, and divided as floats.
\<close>

fun truediv :: "pynumber \<Rightarrow> pynumber \<Rightarrow> py_error + pyfloat" where
  "truediv (PInt a) (PInt b) =
     (if b = 0 then Inl ZeroDivisionError
      else (case round_to_double ((a < 0) \<noteq> (b < 0)) (nat \<bar>a\<bar>) (nat \<bar>b\<bar>) of
              Infinity s \<Rightarrow> Inl OverflowError
            | Finite m e \<Rightarrow> Inr (Finite m e)
            | NaN \<Rightarrow> Inr NaN))"
| "truediv x y =
     (case to_float x of
        Inl err \<Rightarrow> Inl err
      | Inr fx \<Rightarrow>
          (case to_float y of
             Inl err \<Rightarrow> Inl err
           | Inr fy \<Rightarrow> float_div fx fy))"

text \<open>\<^verbatim>\<open>float.is_integer\<close> and \<^verbatim>\<open>int\<close> of a float (truncation towards zero).\<close>

fun is_integer :: "pyfloat \<Rightarrow> bool" where
  "is_integer (Finite m e) = (0 \<le> e \<or> 2 ^ nat (- e) dvd m)"
| "is_integer (Infinity s) = False"
| "is_integer NaN = False"

fun py_int :: "pyfloat \<Rightarrow> py_error + int" where
  "py_int (Finite m e) =
     Inr (if 0 \<le> e then m * 2 ^ nat e else sgn m * (\<bar>m\<bar> div 2 ^ nat (- e)))"
| "py_int (Infinity s) = Inl OverflowError"
| "py_int NaN = Inl ValueError"

text \<open>\<^verbatim>\<open>custom_division\<close>: the value it returns, or the exception that leaves it.\<close>

definition custom_division :: "pynumber \<Rightarrow> pynumber \<Rightarrow> py_error + pynumber" where
  "custom_division numerator denominator =
     (case truediv numerator denominator of
        Inl err \<Rightarrow> Inl err
      | Inr res \<Rightarrow>
          (if is_integer res
           then (case py_int res of Inl err \<Rightarrow> Inl err | Inr k \<Rightarrow> Inr (PInt k))
           else Inr (PFloat res)))"

text \<open>
  The numeric value of a float and of a number, as a rational; an infinity and
  not-a-number have none. The exact quotient of two numbers with values.
\<close>

fun float_value :: "pyfloat \<Rightarrow> rat option" where
  "float_value (Finite m e) = Some (of_int m * 2 powi e)"
| "float_value (Infinity s) = None"
| "float_value NaN = None"

fun number_value :: "pynumber \<Rightarrow> rat option" where
  "number_value (PInt n) = Some (of_int n)"
| "number_value (PFloat f) = float_value f"

fun is_zero :: "pynumber \<Rightarrow> bool" where
  "is_zero (PInt n) = (n = 0)"
| "is_zero (PFloat (Finite m e)) = (m = 0)"
| "is_zero (PFloat (Infinity s)) = False"
| "is_zero (PFloat NaN) = False"

fun is_PInt :: "pynumber \<Rightarrow> bool" where
  "is_PInt (PInt n) = True"
| "is_PInt (PFloat f) = False"

subsection \<open>Derived views and sample values\<close>

text \<open>The command, the device and the request log as one call of \<^verbatim>\<open>collect\<close> leaves them.\<close>

definition collected :: "AsyncEOSDevice \<Rightarrow> 'o AntaCommand \<Rightarrow> 'o eapi \<Rightarrow> 'o AntaCommand" where
  "collected self c net = snd (fst (collect self c net))"

definition device_after_collect :: "AsyncEOSDevice \<Rightarrow> 'o AntaCommand \<Rightarrow> 'o eapi \<Rightarrow> AsyncEOSDevice" where
  "device_after_collect self c net = fst (fst (collect self c net))"

text \<open>The transport's answer to the request that \<^verbatim>\<open>collect\<close> sends.\<close>

definition collect_outcome :: "AsyncEOSDevice \<Rightarrow> 'o AntaCommand \<Rightarrow> 'o eapi \<Rightarrow> exn + 'o list" where
  "collect_outcome self c net = respond net (sent net) (collect_request self c)"

text \<open>The identity of a command in the spec: text, output format, version, revision.\<close>

definition identity :: "'o AntaCommand \<Rightarrow> string \<times> ofmt_t \<times> version_t \<times> nat option" where
  "identity c = (command c, ofmt c, version c, revision c)"

text \<open>What \<^verbatim>\<open>refresh\<close> leaves: the exception it raised, the device, the request log.\<close>

definition refresh_raised :: "AsyncEOSDevice \<Rightarrow> (string \<times> string) list eapi \<Rightarrow> exn option" where
  "refresh_raised self net = fst (fst (refresh self net))"

definition refreshed :: "AsyncEOSDevice \<Rightarrow> (string \<times> string) list eapi \<Rightarrow> AsyncEOSDevice" where
  "refreshed self net = snd (fst (refresh self net))"

definition refresh_net :: "AsyncEOSDevice \<Rightarrow> (string \<times> string) list eapi \<Rightarrow> (string \<times> string) list eapi" where
  "refresh_net self net = snd (refresh self net)"

definition show_version_request :: eapi_request where
  "show_version_request =
     \<lparr> cmds = [\<lparr> cmd = COMMAND, cmd_input = None, cmd_revision = None \<rparr>],
       req_ofmt = Json, req_version = Latest \<rparr>"

text \<open>Sample devices: one endpoint under two names, tag sets and credentials.\<close>

definition leaf1 :: AsyncEOSDevice where
  "leaf1 = AsyncEOSDevice_init ''10.0.0.1'' ''admin'' ''secret'' (Some ''leaf1'') None
             (Some 443) (Some 22) (Some [''fabric'']) None False Https"

definition leaf1_alias :: AsyncEOSDevice where
  "leaf1_alias = AsyncEOSDevice_init ''10.0.0.1'' ''ops'' ''other'' None (Some ''en'')
                   None (Some 2222) None (Some 5) True Https"

definition leaf1_again :: AsyncEOSDevice where
  "leaf1_again = AsyncEOSDevice_init ''10.0.0.1'' ''ro'' ''ro'' (Some ''spare'') None
                   (Some 443) None (Some [''all'', ''lab'']) None False Https"

text \<open>Sample commands and endpoints for \<^verbatim>\<open>collect\<close>; an output is a string here.\<close>

definition show_version_cmd :: "string AntaCommand" where
  "show_version_cmd =
     \<lparr> command = ''show version'', version = Latest, revision = None, ofmt = Json,
       output_val = None, failed = None \<rparr>"

definition echo_net :: "string eapi" where
  "echo_net =
     \<lparr> reachable = True,
       respond = (\<lambda>sent_log req. Inr (map (\<lambda>c. ''out: '' @ cmd c) (cmds req))),
       sent = [] \<rparr>"

definition refusing_net :: "string eapi" where
  "refusing_net =
     \<lparr> reachable = False,
       respond = (\<lambda>sent_log req. Inl (ConnectError ''connection refused'')),
       sent = [] \<rparr>"

text \<open>Sample endpoints for \<^verbatim>\<open>refresh\<close>; an output is a dictionary of strings.\<close>

definition eos_up :: "(string \<times> string) list eapi" where
  "eos_up =
     \<lparr> reachable = True,
       respond = (\<lambda>sent_log req. Inr (map (\<lambda>c. [(''modelName'', ''cEOSLab''), (''version'', ''4.30.1F'')])
                                 (cmds req))),
       sent = [] \<rparr>"

definition eos_unreachable :: "(string \<times> string) list eapi" where
  "eos_unreachable =
     \<lparr> reachable = False,
       respond = (\<lambda>sent_log req. Inl (ConnectError ''connection refused'')),
       sent = [] \<rparr>"

definition eos_garbled :: "(string \<times> string) list eapi" where
  "eos_garbled =
     \<lparr> reachable = True,
       respond = (\<lambda>sent_log req. Inl (OtherException ''JSONDecodeError'')),
       sent = [] \<rparr>"

text \<open>
  The outcome of the identity command of \<^verbatim>\<open>refresh\<close>, and the exceptions for which
  \<^verbatim>\<open>refresh\<close> has a handler.
\<close>

definition show_version_outcome :: "(string \<times> string) list eapi \<Rightarrow> exn + (string \<times> string) list" where
  "show_version_outcome net = fst (cli_command COMMAND net)"

fun handled_by_refresh :: "exn \<Rightarrow> bool" where
  "handled_by_refresh (EapiCommandError m) = True"
| "handled_by_refresh (HTTPError m) = True"
| "handled_by_refresh (ConnectError m) = True"
| "handled_by_refresh (OtherException m) = False"

fun is_failure_call :: "result_call \<Rightarrow> bool" where
  "is_failure_call (Call_is_failure m) = True"
| "is_failure_call _ = False"

text \<open>A sample evaluation: two failures among successes and a skip.\<close>

definition sample_calls :: "result_call list" where
  "sample_calls =
     [Call_is_success, Call_is_failure ''peer down'', Call_is_success,
      Call_is_skipped ''not applicable'', Call_is_failure ''queue not empty'', Call_is_success]"

text \<open>
  Views on \<^verbatim>\<open>get_failed_logs\<close>: whether an item of the expected dictionary differs from
  what \<^verbatim>\<open>get\<close> finds in the actual one, and the message written for it.
\<close>

definition differs :: "(pyval \<times> pyval) list \<Rightarrow> pyval \<times> pyval \<Rightarrow> bool" where
  "differs actual_output item = (dict_get actual_output (fst item) \<noteq> snd item)"

definition log_for :: "(pyval \<times> pyval) list \<Rightarrow> pyval \<times> pyval \<Rightarrow> string" where
  "log_for actual_output item =
     (if dict_get actual_output (fst item) = PyNone
      then not_found_log (fst item) (snd item)
      else instead_log (fst item) (snd item) (dict_get actual_output (fst item)))"

text \<open>Sample dictionaries, after the unit tests of \<^verbatim>\<open>get_failed_logs\<close>.\<close>

definition expected_alice :: "(pyval \<times> pyval) list" where
  "expected_alice =
     [(PyStr ''id'', PyInt 1), (PyStr ''name'', PyStr ''Alice''), (PyStr ''age'', PyInt 30),
      (PyStr ''note'', PyNone)]"

definition actual_alice :: "(pyval \<times> pyval) list" where
  "actual_alice =
     [(PyStr ''name'', PyStr ''Alice''), (PyStr ''id'', PyInt 1), (PyStr ''age'', PyInt 30),
      (PyStr ''email'', PyStr ''alice@example.com'')]"

definition actual_bob :: "(pyval \<times> pyval) list" where
  "actual_bob = [(PyStr ''id'', PyInt 1), (PyStr ''name'', PyStr ''Bob'')]"



text \<open>The command of the test after a collection that gave the output \<open>out\<close>.\<close>

definition bgp_command :: "bgp_summary \<Rightarrow> bgp_summary AntaCommand" where
  "bgp_command out =
     \<lparr> command = ''show bgp ipv4 unicast summary vrf all'', version = Latest, revision = None,
       ofmt = Json, output_val = Some (Selected out), failed = None \<rparr>"





section \<open>Properties\<close>

subsection \<open>Equality of devices\<close>

text \<open>
  Claim C8. Two \<^verbatim>\<open>AsyncEOSDevice\<close> objects are equal exactly when their sessions have the
  same host and the same eAPI port, whatever their names, tags and credentials; an
  object of any other type is never equal to a device; on devices the relation is
  reflexive, symmetric and transitive.
\<close>

theorem AsyncEOSDevice_eq_endpoint:
  "(AsyncEOSDevice_eq a (AsyncEOSDevice_obj b) \<longleftrightarrow>
      host (session a) = host (session b) \<and> port (session a) = port (session b))
   \<and> \<not> AsyncEOSDevice_eq a (Other_obj x)
   \<and> AsyncEOSDevice_eq a (AsyncEOSDevice_obj a)
   \<and> (AsyncEOSDevice_eq a (AsyncEOSDevice_obj b) \<longleftrightarrow> AsyncEOSDevice_eq b (AsyncEOSDevice_obj a))
   \<and> (AsyncEOSDevice_eq a (AsyncEOSDevice_obj b) \<and> AsyncEOSDevice_eq b (AsyncEOSDevice_obj c)
        \<longrightarrow> AsyncEOSDevice_eq a (AsyncEOSDevice_obj c))"
  by auto

lemmas init_defs =
  AsyncEOSDevice_init_def Device_init_def AntaDevice_init_def DEFAULT_TAG_def
  AsyncEOSDevice.defs AntaDevice.defs Let_def

theorem AsyncEOSDevice_eq_endpoint_witness:
  "AsyncEOSDevice_eq leaf1 (AsyncEOSDevice_obj leaf1_alias :: string py_object)
   \<and> AsyncEOSDevice_eq leaf1_alias (AsyncEOSDevice_obj leaf1_again :: string py_object)
   \<and> AsyncEOSDevice_eq leaf1 (AsyncEOSDevice_obj leaf1_again :: string py_object)
   \<and> name leaf1 \<noteq> name leaf1_alias \<and> tags leaf1 \<noteq> tags leaf1_alias
   \<and> \<not> AsyncEOSDevice_eq leaf1 (Other_obj ''10.0.0.1:443'')"
  using AsyncEOSDevice_eq_endpoint [of leaf1 leaf1_alias "''10.0.0.1:443''" leaf1_again]
  by (simp add: leaf1_def leaf1_alias_def leaf1_again_def init_defs)

subsection \<open>Collecting one command\<close>

lemma collect_device: "fst (fst (collect self c net)) = self"
  by (simp add: collect_def cli_def split: sum.splits exn.splits)

lemma collect_sent: "sent (snd (collect self c net)) = sent net @ [collect_request self c]"
  by (simp add: collect_def cli_def split: sum.splits exn.splits)

lemma collect_snd: "snd (collect self c net) = net\<lparr>sent := sent net @ [collect_request self c]\<rparr>"
  by (simp add: collect_def cli_def split: sum.splits exn.splits)

lemma ofmt_in: "ofmt c \<in> set [Json, Text]"
  by (cases "ofmt c") simp_all

lemma collected_cases:
  "collected self c net =
     (case collect_outcome self c net of
        Inl e \<Rightarrow> c\<lparr>failed := Some e\<rparr>
      | Inr resp \<Rightarrow> if 1 < length resp then c\<lparr>output_val := Some (Selected (resp ! 1))\<rparr>
                    else c\<lparr>failed := Some (OtherException ''IndexError'')\<rparr>)"
  using ofmt_in [of c]
  by (simp add: collected_def collect_outcome_def collect_def cli_def split: sum.splits exn.splits)

text \<open>
  Claim C7. \<^verbatim>\<open>collect\<close> assigns to no attribute of the device: after the call, whether
  the transport answered or raised, the device (name, tags, hardware model,
  \<^verbatim>\<open>is_online\<close>, \<^verbatim>\<open>established\<close>, enable password, session and SSH options) is the one
  the call started from.
\<close>

theorem collect_frame:
  "device_after_collect self c net = self"
  by (simp add: device_after_collect_def collect_device)

text \<open>
  Claim C1, amended. \<^verbatim>\<open>collect\<close> is total: it has no exception to pass on. For a command
  whose output and failure are both unset when \<^verbatim>\<open>collect\<close> is called: if the transport
  returns a response with an entry for the command (the second entry, after the one
  for \<^verbatim>\<open>enable\<close>), the output is that entry and the failure stays unset; if the
  transport raises, the exception is recorded as the failure and the output stays
  unset; in every case exactly one of output and failure is set afterwards.
\<close>

theorem collect_fresh_command:
  assumes "output_val c = None" and "failed c = None"
  shows "(\<forall>resp. collect_outcome self c net = Inr resp \<and> 1 < length resp \<longrightarrow>
            output_val (collected self c net) = Some (Selected (resp ! 1))
            \<and> failed (collected self c net) = None)
       \<and> (\<forall>e. collect_outcome self c net = Inl e \<longrightarrow>
            failed (collected self c net) = Some e \<and> output_val (collected self c net) = None)
       \<and> (output_val (collected self c net) = None \<longleftrightarrow> failed (collected self c net) \<noteq> None)"
  using assms by (simp add: collected_cases split: sum.splits)

lemmas sample_defs =
  leaf1_def show_version_cmd_def echo_net_def refusing_net_def
  collect_outcome_def collect_request_def

theorem collect_fresh_command_witness:
  "output_val show_version_cmd = None \<and> failed show_version_cmd = None
   \<and> collect_outcome leaf1 show_version_cmd echo_net = Inr [''out: enable'', ''out: show version'']
   \<and> output_val (collected leaf1 show_version_cmd echo_net) = Some (Selected ''out: show version'')
   \<and> failed (collected leaf1 show_version_cmd echo_net) = None
   \<and> collect_outcome leaf1 show_version_cmd refusing_net = Inl (ConnectError ''connection refused'')
   \<and> failed (collected leaf1 show_version_cmd refusing_net) = Some (ConnectError ''connection refused'')
   \<and> output_val (collected leaf1 show_version_cmd refusing_net) = None"
  using collect_fresh_command [where c = show_version_cmd and self = leaf1 and net = echo_net]
    collect_fresh_command [where c = show_version_cmd and self = leaf1 and net = refusing_net]
  by (simp add: sample_defs init_defs)

text \<open>
  Claim C1 as stated, for every command, fails: \<^verbatim>\<open>collect\<close> never clears a slot. A
  command whose first collection failed and which is collected again with success
  ends with both its output and its failure set.
\<close>

theorem collect_second_attempt_counterexample:
  "output_val (collected leaf1 (collected leaf1 show_version_cmd refusing_net) echo_net)
     = Some (Selected ''out: show version'')
   \<and> failed (collected leaf1 (collected leaf1 show_version_cmd refusing_net) echo_net)
     = Some (ConnectError ''connection refused'')"
  by (simp add: collected_cases sample_defs init_defs)

subsection \<open>Collecting a batch\<close>

lemma collect_commands_Cons:
  "collect_commands self (c # cs) net =
     ((fst (fst (collect_commands self cs (snd (collect self c net)))),
       collected self c net # snd (fst (collect_commands self cs (snd (collect self c net))))),
      snd (collect_commands self cs (snd (collect self c net))))"
  using collect_device [of self c net]
  by (auto simp: collected_def split: prod.splits)

lemma collect_commands_device: "fst (fst (collect_commands self cs net)) = self"
proof (induction cs arbitrary: net)
  case Nil
  show ?case by simp
next
  case (Cons c cs)
  show ?case
    by (simp only: collect_commands_Cons fst_conv Cons.IH)
qed

lemma collect_commands_sent:
  "sent (snd (collect_commands self cs net)) = sent net @ map (collect_request self) cs"
proof (induction cs arbitrary: net)
  case Nil
  show ?case by simp
next
  case (Cons c cs)
  have "sent (snd (collect_commands self (c # cs) net)) =
        sent (snd (collect self c net)) @ map (collect_request self) cs"
    by (simp only: collect_commands_Cons snd_conv Cons.IH)
  then show ?case
    by (simp add: collect_sent)
qed

lemma collect_commands_length:
  "length (snd (fst (collect_commands self cs net))) = length cs"
proof (induction cs arbitrary: net)
  case Nil
  show ?case by simp
next
  case (Cons c cs)
  show ?case
    by (simp only: collect_commands_Cons fst_conv snd_conv list.size Cons.IH)
qed

lemma collect_commands_nth:
  "i < length cs \<Longrightarrow>
   snd (fst (collect_commands self cs net)) ! i =
     collected self (cs ! i) (net\<lparr>sent := sent net @ map (collect_request self) (take i cs)\<rparr>)"
proof (induction cs arbitrary: net i)
  case Nil
  then show ?case by simp
next
  case (Cons c cs)
  have unfold: "snd (fst (collect_commands self (c # cs) net)) =
        collected self c net # snd (fst (collect_commands self cs (snd (collect self c net))))"
    by (simp only: collect_commands_Cons fst_conv snd_conv)
  show ?case
  proof (cases i)
    case 0
    then show ?thesis
      by (simp only: unfold nth_Cons_0 take_0 list.map append_Nil2) simp
  next
    case (Suc j)
    with Cons.prems have "j < length cs" by simp
    from Cons.IH [OF this, of "snd (collect self c net)"] Suc show ?thesis
      by (simp add: unfold collect_snd del: collect_commands.simps)
  qed
qed

lemma identity_request:
  "identity ca = identity cb \<Longrightarrow> collect_request self ca = collect_request self cb"
  by (simp add: identity_def collect_request_def Let_def)

text \<open>
  Claim C2, amended. \<^verbatim>\<open>collect_commands\<close> does not deduplicate: it sends one request
  per element of the batch, in order, and every element receives the result of its
  own request. Commands with the same identity produce the same request, so a request
  is sent as many times as the batch holds a command with its identity.
\<close>

theorem collect_commands_one_request_each:
  "sent (snd (collect_commands self cs net)) = sent net @ map (collect_request self) cs
   \<and> length (snd (fst (collect_commands self cs net))) = length cs
   \<and> (\<forall>i < length cs.
        snd (fst (collect_commands self cs net)) ! i =
          collected self (cs ! i) (net\<lparr>sent := sent net @ map (collect_request self) (take i cs)\<rparr>))
   \<and> (identity ca = identity cb \<longrightarrow> collect_request self ca = collect_request self cb)"
proof (intro conjI allI impI)
  show "sent (snd (collect_commands self cs net)) = sent net @ map (collect_request self) cs"
    by (rule collect_commands_sent)
  show "length (snd (fst (collect_commands self cs net))) = length cs"
    by (rule collect_commands_length)
  show "snd (fst (collect_commands self cs net)) ! i =
          collected self (cs ! i) (net\<lparr>sent := sent net @ map (collect_request self) (take i cs)\<rparr>)"
    if "i < length cs" for i
    using that by (rule collect_commands_nth)
  show "collect_request self ca = collect_request self cb" if "identity ca = identity cb"
    using that by (rule identity_request)
qed

lemma echo_show_version:
  "collect_outcome leaf1 show_version_cmd (echo_net\<lparr>sent := sent_log\<rparr>)
     = Inr [''out: enable'', ''out: show version'']"
  by (simp add: sample_defs init_defs)

theorem collect_commands_one_request_each_witness:
  "identity show_version_cmd = identity show_version_cmd
   \<and> (1::nat) < length [show_version_cmd, show_version_cmd]
   \<and> sent (snd (collect_commands leaf1 [show_version_cmd, show_version_cmd] echo_net))
       = [collect_request leaf1 show_version_cmd, collect_request leaf1 show_version_cmd]
   \<and> output_val (snd (fst (collect_commands leaf1 [show_version_cmd, show_version_cmd] echo_net)) ! 1)
       = Some (Selected ''out: show version'')"
proof -
  note all = collect_commands_one_request_each
    [where self = leaf1 and net = echo_net and ca = show_version_cmd and cb = show_version_cmd
       and cs = "[show_version_cmd, show_version_cmd]"]
  have net0: "sent echo_net = []"
    by (simp add: echo_net_def)
  have sent: "sent (snd (collect_commands leaf1 [show_version_cmd, show_version_cmd] echo_net))
       = [collect_request leaf1 show_version_cmd, collect_request leaf1 show_version_cmd]"
    using all [THEN conjunct1] by (simp only: net0 list.map append_Nil)
  have "(1::nat) < length [show_version_cmd, show_version_cmd]"
    by simp
  with all [THEN conjunct2, THEN conjunct2, THEN conjunct1]
  have "snd (fst (collect_commands leaf1 [show_version_cmd, show_version_cmd] echo_net)) ! 1 =
          collected leaf1 ([show_version_cmd, show_version_cmd] ! 1)
            (echo_net\<lparr>sent := sent echo_net @ map (collect_request leaf1)
               (take 1 [show_version_cmd, show_version_cmd])\<rparr>)"
    by blast
  then have "output_val (snd (fst (collect_commands leaf1 [show_version_cmd, show_version_cmd] echo_net)) ! 1)
       = output_val (collected leaf1 show_version_cmd
            (echo_net\<lparr>sent := [collect_request leaf1 show_version_cmd]\<rparr>))"
    by (simp only: net0 nth_Cons_0 nth_Cons_Suc One_nat_def take_Suc_Cons take_0 list.map append_Nil)
  also have "\<dots> = Some (Selected ''out: show version'')"
    by (simp add: collected_cases echo_show_version)
  finally show ?thesis
    using sent by (simp del: collect_commands.simps)
qed

text \<open>
  Claim C2 as stated fails: for a batch of two commands with the same identity the
  request is sent twice, not once.
\<close>

theorem collect_commands_twice_counterexample:
  "identity show_version_cmd = identity show_version_cmd
   \<and> count_list (sent (snd (collect_commands leaf1 [show_version_cmd, show_version_cmd] echo_net)))
        (collect_request leaf1 show_version_cmd) = 2"
proof -
  have "sent (snd (collect_commands leaf1 [show_version_cmd, show_version_cmd] echo_net))
        = [collect_request leaf1 show_version_cmd, collect_request leaf1 show_version_cmd]"
    by (simp only: collect_commands_sent) (simp add: echo_net_def)
  then show ?thesis
    by (simp del: collect_commands.simps)
qed

subsection \<open>Refreshing a device\<close>

lemma cli_command_sent:
  "sent (snd (cli_command c net)) =
     sent net @ [\<lparr> cmds = [\<lparr> cmd = c, cmd_input = None, cmd_revision = None \<rparr>],
                    req_ofmt = Json, req_version = Latest \<rparr>]"
  by (simp add: cli_command_def cli_def split: sum.splits list.splits)

lemma refresh_unreachable:
  "\<not> reachable net \<Longrightarrow>
   refresh self net = ((None, set_established (self\<lparr>is_online := False\<rparr>)), net)"
  by (simp add: refresh_def check_connection_def Let_def)

lemma refresh_reachable:
  "reachable net \<Longrightarrow>
   refresh self net =
     (case show_version_outcome net of
        Inl e \<Rightarrow> (if handled_by_refresh e
                   then ((None, set_established (self\<lparr>is_online := True\<rparr>)), snd (cli_command COMMAND net))
                   else ((Some e, self\<lparr>is_online := True\<rparr>), snd (cli_command COMMAND net)))
      | Inr resp \<Rightarrow>
          (case map_of resp HW_MODEL_KEY of
             Some m \<Rightarrow> ((None, set_established (self\<lparr>is_online := True, hw_model := Some m\<rparr>)),
                        snd (cli_command COMMAND net))
           | None \<Rightarrow> ((None, set_established (self\<lparr>is_online := True\<rparr>)),
                      snd (cli_command COMMAND net))))"
  by (cases "cli_command COMMAND net")
     (auto simp: refresh_def check_connection_def Let_def show_version_outcome_def
           split: sum.splits exn.splits option.splits)

lemma established_set_established:
  "established (set_established d) =
     (is_online d \<and> hw_model d \<noteq> None \<and> hw_model d \<noteq> Some [])"
  by (auto simp: set_established_def py_bool_and_def split: option.splits)

lemma set_established_fields:
  "is_online (set_established d) = is_online d" "hw_model (set_established d) = hw_model d"
  by (simp_all add: set_established_def)

lemma refresh_raised_eq:
  "refresh_raised self net =
     (if reachable net
      then (case show_version_outcome net of
              Inl e \<Rightarrow> if handled_by_refresh e then None else Some e
            | Inr resp \<Rightarrow> None)
      else None)"
  by (simp add: refresh_raised_def refresh_unreachable refresh_reachable
      split: sum.splits option.splits)

lemma refresh_sent:
  "sent (refresh_net self net) =
     (if reachable net then sent net @ [show_version_request] else sent net)"
  using cli_command_sent [of COMMAND net]
  by (simp add: refresh_net_def refresh_unreachable refresh_reachable show_version_request_def
      split: sum.splits option.splits)

lemma refresh_is_online: "is_online (refreshed self net) = reachable net"
  by (cases "reachable net")
     (simp_all add: refreshed_def refresh_unreachable refresh_reachable set_established_fields
        split: sum.splits option.splits)

lemma refresh_established:
  "refresh_raised self net = None \<Longrightarrow>
   established (refreshed self net) =
     (is_online (refreshed self net) \<and> hw_model (refreshed self net) \<noteq> None
      \<and> hw_model (refreshed self net) \<noteq> Some [])"
  by (cases "reachable net")
     (auto simp: refresh_raised_def refreshed_def refresh_unreachable refresh_reachable
        established_set_established set_established_fields
        split: sum.splits option.splits if_splits)

text \<open>
  Claim C4, amended. \<^verbatim>\<open>refresh\<close> raises exactly when the device is reachable and the
  identity command raises an exception other than \<^verbatim>\<open>EapiCommandError\<close>, \<^verbatim>\<open>HTTPError\<close> and
  \<^verbatim>\<open>ConnectError\<close>, which it passes on. It sends \<^verbatim>\<open>show version\<close> only when the probe
  reported the device reachable, and sets \<^verbatim>\<open>is_online\<close> to the probe's answer. When it
  returns, \<^verbatim>\<open>established\<close> holds exactly when the device is online and the hardware
  model is a non-empty string.
\<close>

theorem refresh_contract:
  "refresh_raised self net =
     (if reachable net
      then (case show_version_outcome net of
              Inl e \<Rightarrow> if handled_by_refresh e then None else Some e
            | Inr resp \<Rightarrow> None)
      else None)
   \<and> sent (refresh_net self net) =
       (if reachable net then sent net @ [show_version_request] else sent net)
   \<and> is_online (refreshed self net) = reachable net
   \<and> (refresh_raised self net = None \<longrightarrow>
        established (refreshed self net) =
          (is_online (refreshed self net) \<and> hw_model (refreshed self net) \<noteq> None
           \<and> hw_model (refreshed self net) \<noteq> Some []))"
proof (intro conjI impI)
  show "refresh_raised self net =
     (if reachable net
      then (case show_version_outcome net of
              Inl e \<Rightarrow> if handled_by_refresh e then None else Some e
            | Inr resp \<Rightarrow> None)
      else None)"
    by (rule refresh_raised_eq)
  show "sent (refresh_net self net) =
       (if reachable net then sent net @ [show_version_request] else sent net)"
    by (rule refresh_sent)
  show "is_online (refreshed self net) = reachable net"
    by (rule refresh_is_online)
  show "established (refreshed self net) =
          (is_online (refreshed self net) \<and> hw_model (refreshed self net) \<noteq> None
           \<and> hw_model (refreshed self net) \<noteq> Some [])"
    if "refresh_raised self net = None"
    using that by (rule refresh_established)
qed

lemma eos_up_outcome:
  "show_version_outcome eos_up = Inr [(''modelName'', ''cEOSLab''), (''version'', ''4.30.1F'')]"
  by (simp add: show_version_outcome_def cli_command_def cli_def eos_up_def)

lemma refresh_leaf1_up:
  "refresh leaf1 eos_up =
     ((None, leaf1\<lparr>is_online := True, hw_model := Some ''cEOSLab'', established := True\<rparr>),
      eos_up\<lparr>sent := [show_version_request]\<rparr>)"
proof -
  have up: "reachable eos_up"
    by (simp add: eos_up_def)
  have net: "snd (cli_command COMMAND eos_up) = eos_up\<lparr>sent := [show_version_request]\<rparr>"
    by (simp add: eos_up_def cli_command_def cli_def show_version_request_def)
  show ?thesis
    by (simp add: refresh_reachable [OF up] eos_up_outcome net HW_MODEL_KEY_def
          set_established_def py_bool_and_def)
qed

theorem refresh_contract_witness:
  "reachable eos_up \<and> refresh_raised leaf1 eos_up = None
   \<and> sent (refresh_net leaf1 eos_up) = [show_version_request]
   \<and> is_online (refreshed leaf1 eos_up)
   \<and> hw_model (refreshed leaf1 eos_up) = Some ''cEOSLab''
   \<and> established (refreshed leaf1 eos_up)"
proof -
  have up: "reachable eos_up"
    by (simp add: eos_up_def)
  have "refresh_raised leaf1 eos_up = None"
    by (simp add: refresh_raised_def refresh_leaf1_up)
  with up refresh_contract [of leaf1 eos_up] show ?thesis
    by (simp add: refreshed_def refresh_net_def refresh_leaf1_up)
qed

text \<open>
  Claim C4 as stated fails: \<^verbatim>\<open>refresh\<close> has no handler for an exception outside its
  three classes. When the answer to \<^verbatim>\<open>show version\<close> cannot be decoded, the exception
  leaves \<^verbatim>\<open>refresh\<close>.
\<close>

theorem refresh_raises_counterexample:
  "refresh_raised leaf1 eos_garbled = Some (OtherException ''JSONDecodeError'')"
  by (simp add: refresh_raised_eq show_version_outcome_def cli_command_def cli_def eos_garbled_def)

text \<open>
  Claim C5, amended. When the device is unreachable, \<^verbatim>\<open>refresh\<close> returns without raising
  and without sending a request, with \<^verbatim>\<open>is_online\<close> and \<^verbatim>\<open>established\<close> false; it does
  not assign the hardware model, which keeps the value it had before the call
  (\<^verbatim>\<open>None\<close> for a device that was never refreshed with success).
\<close>

theorem refresh_unreachable_device:
  assumes "\<not> reachable net"
  shows "refresh_raised self net = None
       \<and> is_online (refreshed self net) = False
       \<and> established (refreshed self net) = False
       \<and> hw_model (refreshed self net) = hw_model self
       \<and> sent (refresh_net self net) = sent net"
  using assms
  by (simp add: refresh_raised_def refreshed_def refresh_net_def refresh_unreachable
      set_established_def py_bool_and_def)

theorem refresh_unreachable_device_witness:
  "\<not> reachable eos_unreachable
   \<and> hw_model leaf1 = None
   \<and> refresh_raised leaf1 eos_unreachable = None
   \<and> is_online (refreshed leaf1 eos_unreachable) = False
   \<and> established (refreshed leaf1 eos_unreachable) = False
   \<and> hw_model (refreshed leaf1 eos_unreachable) = None"
  using refresh_unreachable_device [of eos_unreachable leaf1]
  by (simp add: eos_unreachable_def leaf1_def init_defs)

text \<open>
  Claim C5 as stated, whatever the state before the call, fails: a device that was
  refreshed with success and is then refreshed while unreachable keeps its hardware
  model.
\<close>

theorem refresh_keeps_hw_model_counterexample:
  "\<not> reachable eos_unreachable
   \<and> hw_model (refreshed (refreshed leaf1 eos_up) eos_unreachable) = Some ''cEOSLab''"
proof -
  have "\<not> reachable eos_unreachable"
    by (simp add: eos_unreachable_def)
  then show ?thesis
    by (simp add: refreshed_def refresh_unreachable refresh_leaf1_up set_established_def)
qed

subsection \<open>Test results\<close>

lemma run_calls_Cons: "run_calls (c # cs) r = run_calls cs (apply_call r c)"
  by (simp add: run_calls_def)

lemma run_calls_append: "run_calls (xs @ ys) r = run_calls ys (run_calls xs r)"
  by (simp add: run_calls_def)

lemma apply_call_sticky: "result r = Failure \<Longrightarrow> result (apply_call r c) = Failure"
  by (cases c) (simp_all add: is_success_def is_failure_def is_skipped_def)

lemma run_calls_sticky: "result r = Failure \<Longrightarrow> result (run_calls cs r) = Failure"
proof (induction cs arbitrary: r)
  case Nil
  then show ?case by (simp add: run_calls_def)
next
  case (Cons c cs)
  from Cons.prems have "result (apply_call r c) = Failure"
    by (rule apply_call_sticky)
  then show ?case
    by (simp add: run_calls_Cons Cons.IH)
qed

lemma run_calls_failure:
  assumes "Call_is_failure m \<in> set cs"
  shows "result (run_calls cs r) = Failure"
proof -
  from assms obtain xs ys where cs: "cs = xs @ Call_is_failure m # ys"
    by (auto dest: split_list)
  have "result (apply_call (run_calls xs r) (Call_is_failure m)) = Failure"
    by (simp add: is_failure_def)
  then show ?thesis
    unfolding cs run_calls_append run_calls_Cons by (rule run_calls_sticky)
qed

lemma messages_apply_call: "messages (apply_call r c) = messages r @ reported_message c"
  by (cases c) (simp_all add: is_success_def is_failure_def is_skipped_def)

lemma messages_run_calls:
  "messages (run_calls cs r) = messages r @ concat (map reported_message cs)"
proof (induction cs arbitrary: r)
  case Nil
  show ?case by (simp add: run_calls_def)
next
  case (Cons c cs)
  show ?case
    by (simp add: run_calls_Cons Cons.IH messages_apply_call)
qed

lemma failure_messages_subseq:
  "subseq (concat (map failure_message cs)) (concat (map reported_message cs))"
proof (induction cs)
  case Nil
  show ?case by simp
next
  case (Cons c cs)
  then show ?case
    by (cases c) (simp_all add: list_emb_Cons)
qed

lemma reported_without_skip:
  "\<forall>c \<in> set cs. \<not> is_skip_call c \<Longrightarrow>
   concat (map reported_message cs) = concat (map failure_message cs)"
proof (induction cs)
  case Nil
  show ?case by simp
next
  case (Cons c cs)
  then show ?case
    by (cases c) simp_all
qed

lemma length_failure_messages:
  "length (concat (map failure_message cs)) = length (filter is_failure_call cs)"
proof (induction cs)
  case Nil
  show ?case by simp
next
  case (Cons c cs)
  then show ?case
    by (cases c) simp_all
qed

text \<open>
  Claim C3. For every result and every sequence of \<^verbatim>\<open>is_success\<close>, \<^verbatim>\<open>is_failure\<close> and
  \<^verbatim>\<open>is_skipped\<close> calls that holds at least one \<^verbatim>\<open>is_failure\<close>: the final verdict is
  failure, and a further \<^verbatim>\<open>is_success\<close> leaves it so; the message list is the initial
  one followed by the reported messages in call order, so the messages of the N
  \<^verbatim>\<open>is_failure\<close> calls appear in it in call order, and they are all that is added when
  no \<^verbatim>\<open>is_skipped\<close> call is made.
\<close>

theorem failure_is_sticky:
  assumes "Call_is_failure m \<in> set cs"
  shows "result (run_calls cs r) = Failure
       \<and> result (is_success (run_calls cs r)) = Failure
       \<and> length (concat (map failure_message cs)) = length (filter is_failure_call cs)
       \<and> messages (run_calls cs r) = messages r @ concat (map reported_message cs)
       \<and> subseq (concat (map failure_message cs)) (messages (run_calls cs r))
       \<and> ((\<forall>c \<in> set cs. \<not> is_skip_call c) \<longrightarrow>
            messages (run_calls cs r) = messages r @ concat (map failure_message cs))"
proof (intro conjI impI)
  show failure: "result (run_calls cs r) = Failure"
    using assms by (rule run_calls_failure)
  then show "result (is_success (run_calls cs r)) = Failure"
    by (simp add: is_success_def)
  show "length (concat (map failure_message cs)) = length (filter is_failure_call cs)"
    by (rule length_failure_messages)
  show "messages (run_calls cs r) = messages r @ concat (map reported_message cs)"
    by (rule messages_run_calls)
  show "subseq (concat (map failure_message cs)) (messages (run_calls cs r))"
    unfolding messages_run_calls
    by (rule list_emb_append2) (rule failure_messages_subseq)
  show "messages (run_calls cs r) = messages r @ concat (map failure_message cs)"
    if "\<forall>c \<in> set cs. \<not> is_skip_call c"
    using that by (simp add: messages_run_calls reported_without_skip)
qed

theorem failure_is_sticky_witness:
  "Call_is_failure ''peer down'' \<in> set sample_calls
   \<and> result (run_calls sample_calls TestResult_init) = Failure
   \<and> length (filter is_failure_call sample_calls) = 2
   \<and> concat (map failure_message sample_calls) = [''peer down'', ''queue not empty'']
   \<and> messages (run_calls sample_calls TestResult_init)
        = [''peer down'', ''not applicable'', ''queue not empty'']
   \<and> messages (run_calls (filter (\<lambda>c. \<not> is_skip_call c) sample_calls) TestResult_init)
        = [''peer down'', ''queue not empty'']"
  using failure_is_sticky [of "''peer down''" sample_calls TestResult_init]
    failure_is_sticky [of "''peer down''" "filter (\<lambda>c. \<not> is_skip_call c) sample_calls" TestResult_init]
  by (simp add: sample_calls_def TestResult_init_def)

subsection \<open>\<^verbatim>\<open>get_failed_logs\<close>\<close>

lemma get_failed_logs_body_eq:
  "get_failed_logs_body k v a fl = fl @ map (log_for a) (filter (differs a) [(k, v)])"
  by (simp add: get_failed_logs_body_def differs_def log_for_def Let_def)

lemma get_failed_logs_loop_eq:
  "get_failed_logs_loop e a fl = fl @ map (log_for a) (filter (differs a) e)"
proof (induction e arbitrary: fl)
  case Nil
  show ?case by simp
next
  case (Cons item e)
  obtain k v where item: "item = (k, v)" by (cases item)
  show ?case
    unfolding item get_failed_logs_loop.simps Cons.IH get_failed_logs_body_eq
    by simp
qed

lemma get_failed_logs_eq:
  "get_failed_logs e a = concat (map (log_for a) (filter (differs a) e))"
  by (simp add: get_failed_logs_def get_failed_logs_loop_eq)

lemma log_for_nonempty: "log_for a item \<noteq> []"
  by (simp add: log_for_def not_found_log_def instead_log_def)

lemma get_failed_logs_empty_iff:
  "get_failed_logs e a = [] \<longleftrightarrow> (\<forall>(k, v) \<in> set e. dict_get a k = v)"
proof -
  have "get_failed_logs e a = [] \<longleftrightarrow> (\<forall>item \<in> set e. \<not> differs a item)"
    by (auto simp: get_failed_logs_eq log_for_nonempty)
  also have "\<dots> \<longleftrightarrow> (\<forall>(k, v) \<in> set e. dict_get a k = v)"
    by (auto simp: differs_def)
  finally show ?thesis .
qed

lemma get_failed_logs_cong:
  assumes "\<forall>k \<in> fst ` set e. dict_get a k = dict_get a' k"
  shows "get_failed_logs e a = get_failed_logs e a'"
proof -
  have d: "differs a item = differs a' item" if "item \<in> set e" for item
    using that assms by (simp add: differs_def)
  have l: "log_for a item = log_for a' item" if "item \<in> set e" for item
    using that assms by (simp add: log_for_def)
  have f: "filter (differs a) e = filter (differs a') e"
    by (rule filter_cong) (simp_all add: d)
  have m: "map (log_for a) (filter (differs a') e) = map (log_for a') (filter (differs a') e)"
    by (rule map_cong) (simp_all add: l)
  show ?thesis
    unfolding get_failed_logs_eq f m ..
qed

lemma get_failed_logs_extra_key:
  assumes "k \<notin> fst ` set e"
  shows "get_failed_logs e ((k, v) # a) = get_failed_logs e a"
proof (rule get_failed_logs_cong)
  show "\<forall>k' \<in> fst ` set e. dict_get ((k, v) # a) k' = dict_get a k'"
    using assms by (auto simp: dict_get_def)
qed

lemma get_failed_logs_expected_None:
  assumes "dict_get a k = PyNone"
  shows "get_failed_logs (e1 @ (k, PyNone) # e2) a = get_failed_logs (e1 @ e2) a"
  using assms by (simp add: get_failed_logs_eq differs_def)

lemma dict_get_absent: "map_of a k = None \<Longrightarrow> dict_get a k = PyNone"
  by (simp add: dict_get_def)

text \<open>
  Claim C9. \<^verbatim>\<open>get_failed_logs\<close> returns the concatenation, in the order of the expected
  dictionary, of one message per item whose value differs from what \<^verbatim>\<open>get\<close> finds in
  the actual dictionary: the \<^verbatim>\<open>was not found\<close> message when \<^verbatim>\<open>get\<close> gives \<^verbatim>\<open>None\<close>, the
  \<^verbatim>\<open>instead\<close> message otherwise. The result is empty exactly when no item differs.
  It depends on the actual dictionary only through the keys of the expected one, so
  a key that only the actual dictionary has adds nothing; and an expected value
  \<^verbatim>\<open>None\<close> under a key that the actual dictionary lacks adds nothing.
\<close>

theorem get_failed_logs_spec:
  "get_failed_logs e a = concat (map (log_for a) (filter (differs a) e))
   \<and> (get_failed_logs e a = [] \<longleftrightarrow> (\<forall>(k, v) \<in> set e. dict_get a k = v))
   \<and> (distinct (map fst e) \<longrightarrow>
        (get_failed_logs e a = [] \<longleftrightarrow> (\<forall>k \<in> fst ` set e. map_of e k = Some (dict_get a k))))
   \<and> ((\<forall>k \<in> fst ` set e. dict_get a k = dict_get a' k) \<longrightarrow>
        get_failed_logs e a = get_failed_logs e a')
   \<and> (k' \<notin> fst ` set e \<longrightarrow> get_failed_logs e ((k', v') # a) = get_failed_logs e a)
   \<and> (map_of a k = None \<longrightarrow>
        get_failed_logs (e1 @ (k, PyNone) # e2) a = get_failed_logs (e1 @ e2) a)"
proof (intro conjI impI)
  show "get_failed_logs e a = concat (map (log_for a) (filter (differs a) e))"
    by (rule get_failed_logs_eq)
  show "get_failed_logs e a = [] \<longleftrightarrow> (\<forall>(k, v) \<in> set e. dict_get a k = v)"
    by (rule get_failed_logs_empty_iff)
  show "get_failed_logs e a = [] \<longleftrightarrow> (\<forall>k \<in> fst ` set e. map_of e k = Some (dict_get a k))"
    if "distinct (map fst e)"
  proof -
    have "(\<forall>(k, v) \<in> set e. dict_get a k = v)
          \<longleftrightarrow> (\<forall>k \<in> fst ` set e. map_of e k = Some (dict_get a k))"
    proof (intro iffI ballI)
      fix k
      assume all: "\<forall>(k, v) \<in> set e. dict_get a k = v" and "k \<in> fst ` set e"
      then obtain v where kv: "(k, v) \<in> set e" by auto
      with all have "dict_get a k = v" by auto
      with kv that show "map_of e k = Some (dict_get a k)" by simp
    next
      fix item
      assume all: "\<forall>k \<in> fst ` set e. map_of e k = Some (dict_get a k)" and item: "item \<in> set e"
      obtain k v where kv: "item = (k, v)" by (cases item)
      from item kv that have "map_of e k = Some v" by simp
      moreover from all item kv have "map_of e k = Some (dict_get a k)" by force
      ultimately show "case item of (k, v) \<Rightarrow> dict_get a k = v"
        by (simp add: kv)
    qed
    then show ?thesis
      by (simp only: get_failed_logs_empty_iff)
  qed
  show "get_failed_logs e a = get_failed_logs e a'"
    if "\<forall>k \<in> fst ` set e. dict_get a k = dict_get a' k"
    using that by (rule get_failed_logs_cong)
  show "get_failed_logs e ((k', v') # a) = get_failed_logs e a" if "k' \<notin> fst ` set e"
    using that by (rule get_failed_logs_extra_key)
  show "get_failed_logs (e1 @ (k, PyNone) # e2) a = get_failed_logs (e1 @ e2) a"
    if "map_of a k = None"
    using that by (intro get_failed_logs_expected_None dict_get_absent)
qed


lemma str_int_1: "str_int 1 = ''1''"
  by (simp add: str_int_def str_nat.simps digit_char_def)

theorem get_failed_logs_spec_witness:
  "distinct (map fst expected_alice)
   \<and> get_failed_logs expected_alice actual_alice = []
   \<and> PyStr ''email'' \<notin> fst ` set expected_alice
   \<and> map_of actual_alice (PyStr ''note'') = None
   \<and> get_failed_logs expected_alice (butlast actual_alice) = []
   \<and> get_failed_logs expected_alice ((PyStr ''email'', PyStr ''x'') # actual_alice) = []
   \<and> get_failed_logs (take 3 expected_alice @ (PyStr ''note'', PyNone) # []) actual_alice
        = get_failed_logs (take 3 expected_alice @ []) actual_alice
   \<and> get_failed_logs (take 2 expected_alice) actual_bob
        = CHR 0x0A # ''Expected `Alice` as the name, but found `Bob` instead.''
   \<and> get_failed_logs (take 2 expected_alice) []
        = CHR 0x0A # ''Expected `1` as the id, but it was not found in the actual output.''
          @ CHR 0x0A # ''Expected `Alice` as the name, but it was not found in the actual output.''"
  using get_failed_logs_spec [where e = expected_alice and a = actual_alice
      and a' = "butlast actual_alice" and k' = "PyStr ''email''" and v' = "PyStr ''x''"
      and k = "PyStr ''note''" and ?e1.0 = "take 3 expected_alice" and ?e2.0 = "[]"]
  by (simp add: expected_alice_def actual_alice_def actual_bob_def get_failed_logs_eq
      differs_def log_for_def dict_get_def not_found_log_def instead_log_def str_int_1)

subsection \<open>\<^verbatim>\<open>VerifyBGPIPv4UnicastState\<close>\<close>




























text \<open>
  Claim C6 as stated fails: when the device returns no VRF, every peer of every
  returned VRF is established, and the verdict is skipped, not success. The gate is
  the one of the class docstring.
\<close>

theorem VerifyBGPIPv4UnicastState_no_vrf_counterexample:
  "vrfs \<lparr> vrfs = [] \<rparr> = []
   \<and> result (VerifyBGPIPv4UnicastState_test no_vrf_gate (bgp_command \<lparr> vrfs = [] \<rparr>) TestResult_init)
       = Skipped"
  by (simp add: VerifyBGPIPv4UnicastState_test_def check_bgp_family_enable_def no_vrf_gate_def
      bgp_command_def is_skipped_def TestResult_init_def)

end
